theory Spec2Isabelle
  imports Complex_Main "HOL-Library.Multiset"
begin

section \<open>Data model (lib/types.ts)\<close>

text \<open>
  Frames, orders and seconds are modelled as unbounded integers, volumes, zoom and
  the visual properties as reals. An optional field of the source (\<open>volume?: number\<close>)
  is an \<open>option\<close>; \<open>string | null\<close> is a \<open>string option\<close>.

  \<open>Clip\<close> and \<open>TextOverlay\<close> share the fields \<open>id\<close>, \<open>startFrame\<close> and \<open>endFrame\<close>,
  which the source reads structurally from both (\<open>item.startFrame\<close> in
  \<open>validateTimelineState\<close>), so both records extend the common record \<open>item\<close>.
  The source's \<open>id\<close> is \<open>itemId\<close> here (\<open>id\<close> is the identity function of HOL),
  and the fields that two interfaces name alike carry a prefix in the second one.
\<close>

datatype clipType = Video | Audio | Image

datatype fontWeight = Normal | Bold

datatype textAlign = AlignLeft | AlignCenter | AlignRight

record item =
  itemId :: string
  startFrame :: int
  endFrame :: int

record clip = item +
  src :: string
  order :: int
  clipType :: clipType
  position :: "(real \<times> real) option"
  scale :: "(real \<times> real) option"
  rotation :: "real option"
  volume :: "real option"
  clipMuted :: "bool option"
  trimStart :: "int option"
  trimEnd :: "int option"

record textStyle =
  fontSize :: real
  fontFamily :: string
  color :: string
  backgroundColor :: "string option"
  opacity :: real
  fontWeight :: fontWeight
  textAlign :: textAlign

record textOverlay = item +
  textContent :: string
  textPosition :: "real \<times> real"
  textScale :: "(real \<times> real) option"
  textRotation :: "real option"
  style :: textStyle

text \<open>
  The state is polymorphic in the element type of \<open>media\<close>: every operation but
  \<open>reorderClips\<close> works on a \<open>clip EditorState\<close>; \<open>reorderClips\<close> can return an array
  holding an object that is no \<open>Clip\<close> (see \<open>mediaEntry\<close> below).
\<close>

record 'c EditorState =
  media :: "'c list"
  texts :: "textOverlay list"
  selectedId :: "string option"
  playhead :: int
  frameRate :: int
  duration :: int
  isPlaying :: bool
  masterVolume :: real
  muted :: bool
  zoom :: real
  scrollPosition :: real

definition DEFAULT_EDITOR_STATE :: "clip EditorState" where
  "DEFAULT_EDITOR_STATE =
     \<lparr> media = [], texts = [], selectedId = None, playhead = 0, frameRate = 30,
       duration = 900, isPlaying = False, masterVolume = 1, muted = False, zoom = 1,
       scrollPosition = 0 \<rparr>"

text \<open>\<open>DEFAULT_TEXT_STYLE\<close> names no \<open>backgroundColor\<close>.\<close>

definition DEFAULT_TEXT_STYLE :: textStyle where
  "DEFAULT_TEXT_STYLE =
     \<lparr> fontSize = 24, fontFamily = ''Arial, sans-serif'', color = ''#ffffff'',
       backgroundColor = None, opacity = 1, fontWeight = Normal, textAlign = AlignCenter \<rparr>"

section \<open>Transition functions (lib/timelineOps.ts)\<close>

text \<open>
  \<open>addClip\<close> and \<open>addTextOverlay\<close> take the new item without its \<open>id\<close> (and a clip
  without its \<open>order\<close>): here a record whose \<open>itemId\<close> (and \<open>order\<close>) is overwritten, as
  the object spread followed by \<open>id: generateId()\<close> does. \<open>generateId\<close> reads the clock
  and a random number; the id it returned is the argument \<open>newId\<close>.
\<close>

definition addClip :: "clip EditorState \<Rightarrow> clip \<Rightarrow> string \<Rightarrow> clip EditorState" where
  "addClip state c newId =
     (let newClip = c\<lparr> itemId := newId, order := int (length (media state)) \<rparr>
      in state\<lparr> media := media state @ [newClip], selectedId := Some (itemId newClip) \<rparr>)"

definition addTextOverlay ::
  "clip EditorState \<Rightarrow> textOverlay \<Rightarrow> string \<Rightarrow> clip EditorState" where
  "addTextOverlay state tx newId =
     (let newText = tx\<lparr> itemId := newId \<rparr>
      in state\<lparr> texts := texts state @ [newText], selectedId := Some (itemId newText) \<rparr>)"

text \<open>
  \<open>array.map((clip, index) => ({...clip, order: index}))\<close>: every element gets its
  position in the array as its \<open>order\<close>.
\<close>

definition renumber :: "clip list \<Rightarrow> clip list" where
  "renumber cs = map (\<lambda>(index, c). c\<lparr>order := int index\<rparr>) (enumerate 0 cs)"

definition removeItem :: "clip EditorState \<Rightarrow> string \<Rightarrow> clip EditorState" where
  "removeItem state i =
     state\<lparr> media := renumber (filter (\<lambda>c. itemId c \<noteq> i) (media state)),
            texts := filter (\<lambda>t. itemId t \<noteq> i) (texts state),
            selectedId := (if selectedId state = Some i then None else selectedId state) \<rparr>"

definition trimClip :: "clip EditorState \<Rightarrow> string \<Rightarrow> int \<Rightarrow> int \<Rightarrow> clip EditorState" where
  "trimClip state clipId newStartFrame newEndFrame =
     state\<lparr> media := map (\<lambda>c. if itemId c = clipId
                               then c\<lparr> startFrame := max 0 newStartFrame,
                                       endFrame := max (newStartFrame + 1) newEndFrame \<rparr>
                               else c) (media state) \<rparr>"

definition trimTextOverlay ::
  "clip EditorState \<Rightarrow> string \<Rightarrow> int \<Rightarrow> int \<Rightarrow> clip EditorState" where
  "trimTextOverlay state textId newStartFrame newEndFrame =
     state\<lparr> texts := map (\<lambda>t. if itemId t = textId
                               then t\<lparr> startFrame := max 0 newStartFrame,
                                       endFrame := max (newStartFrame + 1) newEndFrame \<rparr>
                               else t) (texts state) \<rparr>"


text \<open>
  \<open>Array.prototype.splice(start, deleteCount, ...items)\<close> as ECMAScript defines it: a
  negative \<open>start\<close> counts from the end of the array and is clamped at 0, a \<open>start\<close>
  beyond the end is clamped at the length, and \<open>deleteCount\<close> is clamped to what is
  left after the start. The result is the removed elements and the array after the call.
\<close>

definition actualStart :: "int \<Rightarrow> nat \<Rightarrow> nat" where
  "actualStart start len =
     (if start < 0 then nat (max (int len + start) 0) else min (nat start) len)"

definition splice :: "'a list \<Rightarrow> int \<Rightarrow> nat \<Rightarrow> 'a list \<Rightarrow> 'a list \<times> 'a list" where
  "splice xs start deleteCount items =
     (let k = actualStart start (length xs);
          d = min deleteCount (length xs - k)
      in (take d (drop k xs), take k xs @ items @ drop (k + d) xs))"

text \<open>
  In \<open>reorderClips\<close> an array slot holds a clip or \<open>undefined\<close> (\<open>None\<close>): the
  destructuring \<open>const [movedClip] = newMedia.splice(fromIndex, 1)\<close> yields \<open>undefined\<close>
  when the splice removed nothing. The final \<open>map\<close> spreads the slot into a new object,
  and \<open>{...undefined, order: index}\<close> is the object \<open>{order: index}\<close>: \<open>OrderOnly\<close>.
\<close>

datatype mediaEntry = Entry clip | OrderOnly int

definition reindex :: "clip option list \<Rightarrow> mediaEntry list" where
  "reindex slots =
     map (\<lambda>(index, slot). case slot of
                              Some c \<Rightarrow> Entry (c\<lparr>order := int index\<rparr>)
                            | None \<Rightarrow> OrderOnly (int index))
         (enumerate 0 slots)"

definition reorderClips :: "clip EditorState \<Rightarrow> int \<Rightarrow> int \<Rightarrow> mediaEntry EditorState" where
  "reorderClips state fromIndex toIndex =
     (let newMedia = map Some (media state);
          (removed, newMedia1) = splice newMedia fromIndex 1 [];
          movedClip = (case removed of [] \<Rightarrow> None | c # _ \<Rightarrow> c);
          (_, newMedia2) = splice newMedia1 toIndex 0 [movedClip];
          reorderedMedia = reindex newMedia2
      in \<lparr> media = reorderedMedia, texts = texts state, selectedId = selectedId state,
           playhead = playhead state, frameRate = frameRate state,
           duration = duration state, isPlaying = isPlaying state,
           masterVolume = masterVolume state, muted = muted state, zoom = zoom state,
           scrollPosition = scrollPosition state \<rparr>)"

definition setPlayhead :: "clip EditorState \<Rightarrow> int \<Rightarrow> clip EditorState" where
  "setPlayhead state frame =
     state\<lparr> playhead := max 0 (min frame (duration state)), isPlaying := False \<rparr>"

definition togglePlayback :: "clip EditorState \<Rightarrow> clip EditorState" where
  "togglePlayback state = state\<lparr> isPlaying := \<not> isPlaying state \<rparr>"

definition selectItem :: "clip EditorState \<Rightarrow> string option \<Rightarrow> clip EditorState" where
  "selectItem state i = state\<lparr> selectedId := i \<rparr>"

section \<open>Duration policy (lib/timelineOps.ts)\<close>

text \<open>\<open>Math.max(...ends of clips, ...ends of texts, 0)\<close>: the last argument is the 0.\<close>

definition calculateTimelineDuration :: "clip EditorState \<Rightarrow> int" where
  "calculateTimelineDuration state =
     foldr max (map endFrame (media state) @ map endFrame (texts state)) 0"

definition getMinimumTimelineDuration :: "clip EditorState \<Rightarrow> int" where
  "getMinimumTimelineDuration state = calculateTimelineDuration state"

definition getOptimalTimelineDuration :: "clip EditorState \<Rightarrow> int \<Rightarrow> int" where
  "getOptimalTimelineDuration state bufferSeconds =
     (let minDuration = getMinimumTimelineDuration state;
          bufferFrames = bufferSeconds * frameRate state
      in max (minDuration + bufferFrames) (frameRate state * 10))"

text \<open>The call leaves \<open>bufferSeconds\<close> out, so it takes its default, 2.\<close>

definition autoAdjustTimelineDuration :: "clip EditorState \<Rightarrow> clip EditorState" where
  "autoAdjustTimelineDuration state =
     (let optimalDuration = getOptimalTimelineDuration state 2
      in state\<lparr> duration := max optimalDuration (duration state) \<rparr>)"

definition fitTimelineToContent :: "clip EditorState \<Rightarrow> clip EditorState" where
  "fitTimelineToContent state =
     (let minDuration = max (getMinimumTimelineDuration state) (frameRate state * 5)
      in state\<lparr> duration := minDuration \<rparr>)"

section \<open>Validation (lib/timelineOps.ts)\<close>

text \<open>
  A template literal prints a frame number in decimal, with a minus sign when it is
  negative (the exponent notation that JavaScript switches to from \<open>10^21\<close> on is not
  modelled).
\<close>

definition digitChar :: "nat \<Rightarrow> char" where
  "digitChar d = ''0123456789'' ! d"

function natToString :: "nat \<Rightarrow> string" where
  "natToString n =
     (if n < 10 then [digitChar n] else natToString (n div 10) @ [digitChar (n mod 10)])"
  by pat_completeness auto
termination
  by (relation "measure (\<lambda>n. n)") auto

declare natToString.simps [simp del]

definition numberToString :: "int \<Rightarrow> string" where
  "numberToString n =
     (if n < 0 then CHR ''-'' # natToString (nat (- n)) else natToString (nat n))"

text \<open>
  The first loop of \<open>validateTimelineState\<close>, over \<open>i = 0 .. length - 2\<close> of the sorted
  clips, comparing each clip with the next one.
\<close>

fun overlapErrors :: "clip list \<Rightarrow> string list" where
  "overlapErrors (current # next # rest) =
     (if endFrame current > startFrame next
      then [''Clip '' @ itemId current @ '' overlaps with clip '' @ itemId next]
      else []) @ overlapErrors (next # rest)"
| "overlapErrors _ = []"

text \<open>The body of the \<open>forEach\<close> over \<open>[...state.media, ...state.texts]\<close>.\<close>

definition rangeErrors :: "'a item_scheme \<Rightarrow> string list" where
  "rangeErrors it =
     (if startFrame it \<ge> endFrame it
      then [''Item '' @ itemId it @ '' has invalid frame range: ''
              @ numberToString (startFrame it) @ ''-'' @ numberToString (endFrame it)]
      else [])
     @ (if startFrame it < 0
        then [''Item '' @ itemId it @ '' has negative start frame: ''
                @ numberToString (startFrame it)]
        else [])"

text \<open>
  \<open>Array.prototype.sort\<close> is stable, and so is \<open>sort_key\<close>: clips with equal
  \<open>startFrame\<close> keep their order.
\<close>

definition validateTimelineState :: "clip EditorState \<Rightarrow> string list" where
  "validateTimelineState state =
     (let sortedClips = sort_key startFrame (media state)
      in overlapErrors sortedClips
         @ concat (map rangeErrors (media state))
         @ concat (map rangeErrors (texts state)))"

section \<open>Store actions (the zustand store) and the preview's clock listener\<close>

text \<open>
  An action of the store is a function from the state before to the state after.
  Where a transition function of lib/timelineOps.ts has the action's name already, the
  action is \<open>store_\<close> and that name: the store's \<open>setPlayhead\<close> is
  \<open>store_setPlayhead\<close>, the store's \<open>trimClip\<close> is \<open>store_trimClip\<close>.
  \<open>Object.assign(state, newState)\<close> with a \<open>newState\<close> that has every field of the state
  makes \<open>newState\<close> the state after.
\<close>

definition store_addClip :: "clip EditorState \<Rightarrow> clip \<Rightarrow> string \<Rightarrow> clip EditorState" where
  "store_addClip state c newId =
     (let newState = addClip state c newId
      in autoAdjustTimelineDuration newState)"

text \<open>
  \<open>{...DEFAULT_TEXT_STYLE, ...text.style}\<close>: \<open>text.style\<close> has every field of a style
  but, possibly, \<open>backgroundColor\<close>, so every field comes from \<open>text.style\<close>, and the
  \<open>backgroundColor\<close> from the defaults when \<open>text.style\<close> has none.
\<close>

definition mergeStyle :: "textStyle \<Rightarrow> textStyle \<Rightarrow> textStyle" where
  "mergeStyle defaults given =
     \<lparr> fontSize = fontSize given, fontFamily = fontFamily given, color = color given,
       backgroundColor = (case backgroundColor given of
                            None \<Rightarrow> backgroundColor defaults
                          | Some b \<Rightarrow> Some b),
       opacity = opacity given, fontWeight = fontWeight given, textAlign = textAlign given \<rparr>"

definition store_addTextOverlay ::
  "clip EditorState \<Rightarrow> textOverlay \<Rightarrow> string \<Rightarrow> clip EditorState" where
  "store_addTextOverlay state tx newId =
     (let textWithDefaults = tx\<lparr> style := mergeStyle DEFAULT_TEXT_STYLE (style tx) \<rparr>;
          newState = addTextOverlay state textWithDefaults newId
      in autoAdjustTimelineDuration newState)"

definition store_setPlayhead :: "clip EditorState \<Rightarrow> int \<Rightarrow> clip EditorState" where
  "store_setPlayhead state frame =
     state\<lparr> playhead := max 0 (min frame (duration state)) \<rparr>"

definition seekTo :: "clip EditorState \<Rightarrow> int \<Rightarrow> clip EditorState" where
  "seekTo state frame =
     state\<lparr> playhead := max 0 (min frame (duration state)), isPlaying := False \<rparr>"

definition store_trimClip ::
  "clip EditorState \<Rightarrow> string \<Rightarrow> int \<Rightarrow> int \<Rightarrow> clip EditorState" where
  "store_trimClip state clipId startF endF =
     (let newState = trimClip state clipId startF endF;
          maxFrame = max startF endF
      in if maxFrame > duration state then autoAdjustTimelineDuration newState
         else newState)"

definition store_trimTextOverlay ::
  "clip EditorState \<Rightarrow> string \<Rightarrow> int \<Rightarrow> int \<Rightarrow> clip EditorState" where
  "store_trimTextOverlay state textId startF endF =
     (let newState = trimTextOverlay state textId startF endF;
          maxFrame = max startF endF
      in if maxFrame > duration state then autoAdjustTimelineDuration newState
         else newState)"

text \<open>
  \<open>Partial<Clip>\<close> and \<open>Partial<TextOverlay>\<close>: every field may be absent (\<open>None\<close>). In
  \<open>{...clip, ...updates}\<close> a field that \<open>updates\<close> has replaces the clip's, the others
  stay. The test \<open>updates.endFrame && updates.endFrame > state.duration\<close> fails for
  an absent \<open>endFrame\<close> and for the \<open>endFrame\<close> 0, which JavaScript takes as false.
\<close>

record itemUpdates =
  u_itemId :: "string option"
  u_startFrame :: "int option"
  u_endFrame :: "int option"

record clipUpdates = itemUpdates +
  u_src :: "string option"
  u_order :: "int option"
  u_clipType :: "clipType option"
  u_position :: "(real \<times> real) option"
  u_scale :: "(real \<times> real) option"
  u_rotation :: "real option"
  u_volume :: "real option"
  u_clipMuted :: "bool option"
  u_trimStart :: "int option"
  u_trimEnd :: "int option"

record textUpdates = itemUpdates +
  u_textContent :: "string option"
  u_textPosition :: "(real \<times> real) option"
  u_textScale :: "(real \<times> real) option"
  u_textRotation :: "real option"
  u_style :: "textStyle option"

definition pick :: "'a option \<Rightarrow> 'a \<Rightarrow> 'a" where
  "pick u v = (case u of None \<Rightarrow> v | Some x \<Rightarrow> x)"

definition pickOptional :: "'a option \<Rightarrow> 'a option \<Rightarrow> 'a option" where
  "pickOptional u v = (case u of None \<Rightarrow> v | Some x \<Rightarrow> Some x)"

definition applyClipUpdates :: "clip \<Rightarrow> clipUpdates \<Rightarrow> clip" where
  "applyClipUpdates c u =
     \<lparr> itemId = pick (u_itemId u) (itemId c),
       startFrame = pick (u_startFrame u) (startFrame c),
       endFrame = pick (u_endFrame u) (endFrame c),
       src = pick (u_src u) (src c),
       order = pick (u_order u) (order c),
       clipType = pick (u_clipType u) (clipType c),
       position = pickOptional (u_position u) (position c),
       scale = pickOptional (u_scale u) (scale c),
       rotation = pickOptional (u_rotation u) (rotation c),
       volume = pickOptional (u_volume u) (volume c),
       clipMuted = pickOptional (u_clipMuted u) (clipMuted c),
       trimStart = pickOptional (u_trimStart u) (trimStart c),
       trimEnd = pickOptional (u_trimEnd u) (trimEnd c) \<rparr>"

definition applyTextUpdates :: "textOverlay \<Rightarrow> textUpdates \<Rightarrow> textOverlay" where
  "applyTextUpdates tx u =
     \<lparr> itemId = pick (u_itemId u) (itemId tx),
       startFrame = pick (u_startFrame u) (startFrame tx),
       endFrame = pick (u_endFrame u) (endFrame tx),
       textContent = pick (u_textContent u) (textContent tx),
       textPosition = pick (u_textPosition u) (textPosition tx),
       textScale = pickOptional (u_textScale u) (textScale tx),
       textRotation = pickOptional (u_textRotation u) (textRotation tx),
       style = pick (u_style u) (style tx) \<rparr>"

definition endFrameBeyond :: "int option \<Rightarrow> int \<Rightarrow> bool" where
  "endFrameBeyond e d = (case e of None \<Rightarrow> False | Some x \<Rightarrow> x \<noteq> 0 \<and> x > d)"

definition updateClip :: "clip EditorState \<Rightarrow> string \<Rightarrow> clipUpdates \<Rightarrow> clip EditorState" where
  "updateClip state i updates =
     (let state1 = state\<lparr> media := map (\<lambda>c. if itemId c = i then applyClipUpdates c updates
                                              else c) (media state) \<rparr>
      in if endFrameBeyond (u_endFrame updates) (duration state1)
         then autoAdjustTimelineDuration state1
         else state1)"

definition updateTextOverlay ::
  "clip EditorState \<Rightarrow> string \<Rightarrow> textUpdates \<Rightarrow> clip EditorState" where
  "updateTextOverlay state i updates =
     (let state1 = state\<lparr> texts := map (\<lambda>tx. if itemId tx = i then applyTextUpdates tx updates
                                               else tx) (texts state) \<rparr>
      in if endFrameBeyond (u_endFrame updates) (duration state1)
         then autoAdjustTimelineDuration state1
         else state1)"

definition store_fitTimelineToContent :: "clip EditorState \<Rightarrow> clip EditorState" where
  "store_fitTimelineToContent state = (let newState = fitTimelineToContent state in newState)"

definition autoAdjustTimeline :: "clip EditorState \<Rightarrow> clip EditorState" where
  "autoAdjustTimeline state = (let newState = autoAdjustTimelineDuration state in newState)"

definition resetState :: "clip EditorState \<Rightarrow> clip EditorState" where
  "resetState state = DEFAULT_EDITOR_STATE"

definition setDuration :: "clip EditorState \<Rightarrow> int \<Rightarrow> clip EditorState" where
  "setDuration state d = state\<lparr> duration := max 0 d \<rparr>"

definition setFrameRate :: "clip EditorState \<Rightarrow> int \<Rightarrow> clip EditorState" where
  "setFrameRate state r = state\<lparr> frameRate := max 1 r \<rparr>"

definition extendTimeline :: "clip EditorState \<Rightarrow> int \<Rightarrow> clip EditorState" where
  "extendTimeline state additionalSeconds =
     (let additionalFrames = additionalSeconds * frameRate state
      in state\<lparr> duration := duration state + additionalFrames \<rparr>)"

definition shrinkTimeline :: "clip EditorState \<Rightarrow> int \<Rightarrow> clip EditorState" where
  "shrinkTimeline state secondsToRemove =
     (let framesToRemove = secondsToRemove * frameRate state;
          minDuration = getMinimumTimelineDuration state;
          newDuration = max (duration state - framesToRemove) minDuration
      in state\<lparr> duration := newDuration \<rparr>)"

text \<open>
  \<open>state.media.find(c => c.id === clipId)\<close> is the first clip with that id; the
  assignment to its \<open>volume\<close> changes that element of the array.
\<close>

fun updateFirst :: "('a \<Rightarrow> bool) \<Rightarrow> ('a \<Rightarrow> 'a) \<Rightarrow> 'a list \<Rightarrow> 'a list" where
  "updateFirst p f [] = []"
| "updateFirst p f (x # xs) = (if p x then f x # xs else x # updateFirst p f xs)"

definition setClipVolume :: "clip EditorState \<Rightarrow> string \<Rightarrow> real \<Rightarrow> clip EditorState" where
  "setClipVolume state clipId v =
     (case find (\<lambda>c. itemId c = clipId) (media state) of
        None \<Rightarrow> state
      | Some _ \<Rightarrow>
          state\<lparr> media := updateFirst (\<lambda>c. itemId c = clipId)
                              (\<lambda>c. c\<lparr>volume := Some (max 0 (min 1 v))\<rparr>) (media state) \<rparr>)"

definition play :: "clip EditorState \<Rightarrow> clip EditorState" where
  "play state = state\<lparr> isPlaying := True \<rparr>"

definition pause :: "clip EditorState \<Rightarrow> clip EditorState" where
  "pause state = state\<lparr> isPlaying := False \<rparr>"

definition stop :: "clip EditorState \<Rightarrow> clip EditorState" where
  "stop state = state\<lparr> isPlaying := False, playhead := 0 \<rparr>"

text \<open>
  \<open>updateFromPlayer\<close> of components/Preview.tsx, the callback that the preview runs
  against the external player's clock while the editor is playing. \<open>currentFrame\<close> is
  what \<open>player.getCurrentFrame()\<close> returned (\<open>None\<close> for \<open>undefined\<close>), \<open>currentState\<close>
  the store's state read at that moment. The callback exists only while the component
  renders with \<open>isPlaying\<close> true, so its outer test of that captured value holds
  whenever it runs. The timer that calls it is not modelled.
\<close>

definition updateFromPlayer :: "int option \<Rightarrow> clip EditorState \<Rightarrow> clip EditorState" where
  "updateFromPlayer currentFrame currentState =
     (let s1 = (case currentFrame of
                  None \<Rightarrow> currentState
                | Some f \<Rightarrow>
                    if isPlaying currentState \<and> \<bar>f - playhead currentState\<bar> > 2
                    then store_setPlayhead currentState f
                    else currentState)
      in case currentFrame of
           None \<Rightarrow> s1
         | Some f \<Rightarrow> if f \<ge> duration currentState then pause s1 else s1)"

section \<open>States of the test suite\<close>

text \<open>The clip literal of lib/__tests__/timelineOps.test.ts, with its optional fields absent.\<close>

definition testClip :: "string \<Rightarrow> int \<Rightarrow> int \<Rightarrow> int \<Rightarrow> clip" where
  "testClip i s e ord =
     \<lparr> itemId = i, startFrame = s, endFrame = e, src = ''test.mp4'', order = ord,
       clipType = Video, position = None, scale = None, rotation = None, volume = None,
       clipMuted = None, trimStart = None, trimEnd = None \<rparr>"

definition stateWith :: "clip list \<Rightarrow> clip EditorState" where
  "stateWith cs = DEFAULT_EDITOR_STATE\<lparr> media := cs \<rparr>"

text \<open>The text overlay literal of the same tests.\<close>

definition testText :: "string \<Rightarrow> int \<Rightarrow> int \<Rightarrow> textOverlay" where
  "testText i s e =
     \<lparr> itemId = i, startFrame = s, endFrame = e, textContent = ''Hello'',
       textPosition = (50, 50), textScale = None, textRotation = None,
       style = \<lparr> fontSize = 24, fontFamily = ''Arial'', color = ''#ffffff'',
                 backgroundColor = None, opacity = 1, fontWeight = Normal,
                 textAlign = AlignCenter \<rparr> \<rparr>"

section \<open>The properties, in the specification's words\<close>

text \<open>The playhead invariant of the data model: \<open>0 \<le> playhead \<le> duration\<close>.\<close>

definition playheadInRange :: "'c EditorState \<Rightarrow> bool" where
  "playheadInRange s = (0 \<le> playhead s \<and> playhead s \<le> duration s)"

text \<open>
  The specification of \<open>validate\<close>: over the clips sorted by \<open>startFrame\<close>, one overlap
  diagnostic for each adjacent pair whose first clip ends after the second starts;
  then, for every clip and every overlay, one diagnostic for an empty or inverted
  range and one for a negative start.
\<close>

definition adjacentPairs :: "'a list \<Rightarrow> ('a \<times> 'a) list" where
  "adjacentPairs xs = zip xs (tl xs)"

definition overlapMessage :: "clip \<Rightarrow> clip \<Rightarrow> string" where
  "overlapMessage previous next =
     ''Clip '' @ itemId previous @ '' overlaps with clip '' @ itemId next"

definition invalidRangeMessage :: "'a item_scheme \<Rightarrow> string" where
  "invalidRangeMessage it =
     ''Item '' @ itemId it @ '' has invalid frame range: ''
       @ numberToString (startFrame it) @ ''-'' @ numberToString (endFrame it)"

definition negativeStartMessage :: "'a item_scheme \<Rightarrow> string" where
  "negativeStartMessage it =
     ''Item '' @ itemId it @ '' has negative start frame: '' @ numberToString (startFrame it)"

definition itemDiagnostics :: "'a item_scheme \<Rightarrow> string list" where
  "itemDiagnostics it =
     [invalidRangeMessage it. startFrame it \<ge> endFrame it]
     @ [negativeStartMessage it. startFrame it < 0]"

definition validateSpec :: "clip EditorState \<Rightarrow> string list" where
  "validateSpec s =
     [overlapMessage previous next.
        (previous, next) \<leftarrow> adjacentPairs (sort_key startFrame (media s)),
        endFrame previous > startFrame next]
     @ concat (map itemDiagnostics (media s))
     @ concat (map itemDiagnostics (texts s))"

text \<open>
  The specification of \<open>reorder\<close>: the clip at position \<open>k\<close> is taken out and put back
  at position \<open>t\<close> of what is left.
\<close>

definition moveClip :: "'a list \<Rightarrow> nat \<Rightarrow> nat \<Rightarrow> 'a list" where
  "moveClip cs k t =
     (let rest = take k cs @ drop (Suc k) cs
      in take t rest @ [cs ! k] @ drop t rest)"

text \<open>What an element of a reordered \<open>media\<close> array holds: its \<open>order\<close>, and its clip if any.\<close>

fun entryOrder :: "mediaEntry \<Rightarrow> int" where
  "entryOrder (Entry c) = order c"
| "entryOrder (OrderOnly n) = n"

fun entryClip :: "mediaEntry \<Rightarrow> clip option" where
  "entryClip (Entry c) = Some c"
| "entryClip (OrderOnly n) = None"

text \<open>A clip without regard to its \<open>order\<close>, which removal and reordering recompute.\<close>

definition eraseOrder :: "clip \<Rightarrow> clip" where
  "eraseOrder c = c\<lparr>order := 0\<rparr>"

section \<open>Trimming\<close>

lemma trimClip_floor_on_clamped_start:
  assumes "0 \<le> newStart \<or> 1 \<le> newEnd"
  shows "trimClip s i newStart newEnd =
           s\<lparr> media := map (\<lambda>c. if itemId c = i
                                  then c\<lparr> startFrame := max 0 newStart,
                                          endFrame := max (max 0 newStart + 1) newEnd \<rparr>
                                  else c) (media s) \<rparr>"
proof -
  have "max (newStart + 1) newEnd = max (max 0 newStart + 1) newEnd"
    using assms by arith
  then show ?thesis by (simp add: trimClip_def)
qed

text \<open>
  C1. Trimming sets the start to \<open>max 0 newStart\<close>, but takes the one-frame floor of
  the end from the raw \<open>newStart\<close>: \<open>max (newStart + 1) newEnd\<close>. With \<open>newStart = -5\<close>
  and \<open>newEnd = -10\<close> the clip of the test suite, and likewise the text overlay, gets
  the range from 0 to -4, which has \<open>end' < start'\<close>, where the floor on the clamped
  start gives the end 1; \<open>validateTimelineState\<close> reports the resulting clip as having
  an invalid frame range.
\<close>

theorem trim_floor_from_raw_start:
  "media (trimClip (stateWith [testClip ''clip1'' 10 100 0]) ''clip1'' (- 5) (- 10))
     = [testClip ''clip1'' 0 (- 4) 0]
   \<and> texts (trimTextOverlay (DEFAULT_EDITOR_STATE\<lparr>texts := [testText ''text1'' 10 60]\<rparr>)
              ''text1'' (- 5) (- 10))
     = [testText ''text1'' 0 (- 4)]
   \<and> validateTimelineState
        (trimClip (stateWith [testClip ''clip1'' 10 100 0]) ''clip1'' (- 5) (- 10))
     = [''Item clip1 has invalid frame range: 0--4'']"
  by (simp add: trimClip_def trimTextOverlay_def stateWith_def testClip_def testText_def
      DEFAULT_EDITOR_STATE_def validateTimelineState_def rangeErrors_def
      numberToString_def natToString.simps digitChar_def)

section \<open>Duration policy\<close>

lemma foldr_max_Max: "foldr max xs (0::int) = Max (insert 0 (set xs))"
proof (induction xs)
  case Nil
  show ?case by simp
next
  case (Cons x xs)
  have "Max (insert 0 (set (x # xs))) = Max (insert x (insert 0 (set xs)))"
    by (simp add: insert_commute)
  also have "\<dots> = max x (Max (insert 0 (set xs)))"
    by (rule Max_insert) simp_all
  finally show ?case using Cons.IH by simp
qed

lemma calculateTimelineDuration_Max:
  "calculateTimelineDuration s =
     Max (insert 0 (endFrame ` set (media s) \<union> endFrame ` set (texts s)))"
  by (simp only: calculateTimelineDuration_def foldr_max_Max set_append set_map)

lemma calculateTimelineDuration_nonneg: "0 \<le> calculateTimelineDuration s"
  by (simp add: calculateTimelineDuration_Max)

lemma max_floor_absorb: "0 \<le> r \<Longrightarrow> max (max 0 m) (5 * r) = max m (5 * (r::int))"
  by arith

text \<open>
  C3. \<open>autoAdjustTimelineDuration\<close> changes the duration only, to the larger of the
  optimal duration and the current one, where the optimal duration is the larger of
  the content extent plus two seconds of frames and ten seconds of frames; so the
  duration never shrinks.
\<close>

theorem autoAdjust_ratchet:
  "autoAdjustTimelineDuration s
     = s\<lparr> duration := max (getOptimalTimelineDuration s 2) (duration s) \<rparr>
   \<and> getOptimalTimelineDuration s 2
     = max (calculateTimelineDuration s + 2 * frameRate s) (10 * frameRate s)
   \<and> duration s \<le> duration (autoAdjustTimelineDuration s)"
  by (simp add: autoAdjustTimelineDuration_def getOptimalTimelineDuration_def
      getMinimumTimelineDuration_def Let_def mult.commute)

text \<open>
  C4. \<open>fitTimelineToContent\<close> changes the duration only, to the larger of the content
  extent and five seconds of frames. The content extent is 0 when there are no clips
  and no overlays; when there are some (and the frame rate is not negative) the new
  duration is the larger of the greatest end frame and five seconds of frames. The
  duration can shrink: from 500 to 150 for one clip ending at 100 at 30 frames a
  second.
\<close>

theorem fit_exact:
  "fitTimelineToContent s
     = s\<lparr> duration := max (calculateTimelineDuration s) (5 * frameRate s) \<rparr>
   \<and> (media s = [] \<and> texts s = [] \<longrightarrow> calculateTimelineDuration s = 0)
   \<and> (\<not> (media s = [] \<and> texts s = []) \<and> 0 \<le> frameRate s \<longrightarrow>
        duration (fitTimelineToContent s)
          = max (Max (endFrame ` set (media s) \<union> endFrame ` set (texts s)))
                (5 * frameRate s))"
proof (intro conjI impI)
  show "fitTimelineToContent s
     = s\<lparr> duration := max (calculateTimelineDuration s) (5 * frameRate s) \<rparr>"
    by (simp add: fitTimelineToContent_def getMinimumTimelineDuration_def Let_def mult.commute)
next
  assume "media s = [] \<and> texts s = []"
  then show "calculateTimelineDuration s = 0"
    by (simp add: calculateTimelineDuration_def)
next
  assume a: "\<not> (media s = [] \<and> texts s = []) \<and> 0 \<le> frameRate s"
  let ?E = "endFrame ` set (media s) \<union> endFrame ` set (texts s)"
  have fin: "finite ?E" by simp
  have ne: "?E \<noteq> {}" using a by auto
  have c: "calculateTimelineDuration s = max 0 (Max ?E)"
    unfolding calculateTimelineDuration_Max using Max_insert [OF fin ne] by simp
  have "duration (fitTimelineToContent s) = max (max 0 (Max ?E)) (5 * frameRate s)"
    by (simp add: fitTimelineToContent_def getMinimumTimelineDuration_def Let_def c mult.commute)
  also have "\<dots> = max (Max ?E) (5 * frameRate s)"
    using a by (intro max_floor_absorb) simp
  finally show "duration (fitTimelineToContent s) = max (Max ?E) (5 * frameRate s)" .
qed

theorem fit_exact_witness:
  "duration (stateWith [testClip ''clip1'' 0 100 0]\<lparr>duration := 500\<rparr>) = 500
   \<and> frameRate (stateWith [testClip ''clip1'' 0 100 0]\<lparr>duration := 500\<rparr>) = 30
   \<and> duration (fitTimelineToContent (stateWith [testClip ''clip1'' 0 100 0]\<lparr>duration := 500\<rparr>))
       = 150
   \<and> calculateTimelineDuration DEFAULT_EDITOR_STATE = 0
   \<and> duration (fitTimelineToContent DEFAULT_EDITOR_STATE) = 150"
proof -
  let ?s = "stateWith [testClip ''clip1'' 0 100 0]\<lparr>duration := 500\<rparr>"
  have h: "\<not> (media ?s = [] \<and> texts ?s = []) \<and> 0 \<le> frameRate ?s"
    by (simp add: stateWith_def DEFAULT_EDITOR_STATE_def)
  have "duration (fitTimelineToContent ?s)
          = max (Max (endFrame ` set (media ?s) \<union> endFrame ` set (texts ?s))) (5 * frameRate ?s)"
    using fit_exact [of ?s] h by blast
  then have 1: "duration (fitTimelineToContent ?s) = 150"
    by (simp add: stateWith_def testClip_def DEFAULT_EDITOR_STATE_def)
  have e: "media DEFAULT_EDITOR_STATE = [] \<and> texts DEFAULT_EDITOR_STATE = []"
    by (simp add: DEFAULT_EDITOR_STATE_def)
  have 2: "calculateTimelineDuration DEFAULT_EDITOR_STATE = 0"
    using fit_exact [of DEFAULT_EDITOR_STATE] e by blast
  have "fitTimelineToContent DEFAULT_EDITOR_STATE
          = DEFAULT_EDITOR_STATE\<lparr> duration := max (calculateTimelineDuration DEFAULT_EDITOR_STATE)
                                                     (5 * frameRate DEFAULT_EDITOR_STATE) \<rparr>"
    using fit_exact [of DEFAULT_EDITOR_STATE] by blast
  then have 3: "duration (fitTimelineToContent DEFAULT_EDITOR_STATE) = 150"
    by (simp add: 2) (simp add: DEFAULT_EDITOR_STATE_def)
  have 0: "duration ?s = 500" "frameRate ?s = 30"
    by (simp_all add: stateWith_def DEFAULT_EDITOR_STATE_def)
  show ?thesis using 0 1 2 3 by blast
qed

section \<open>Seek and sync\<close>

text \<open>
  C6. The user seek, \<open>setPlayhead\<close> of lib/timelineOps.ts and \<open>seekTo\<close> of the store
  alike, sets the playhead to the frame clamped into \<open>[0, duration]\<close> and stops
  playback, for every frame; the clamped playhead lies in \<open>[0, duration]\<close> for every
  state of the data model, where the duration is not negative.
\<close>

theorem setPlayhead_clamps:
  "setPlayhead s f = s\<lparr> playhead := max 0 (min f (duration s)), isPlaying := False \<rparr>
   \<and> seekTo s f = setPlayhead s f
   \<and> \<not> isPlaying (setPlayhead s f)
   \<and> duration (setPlayhead s f) = duration s
   \<and> (0 \<le> duration s \<longrightarrow>
        0 \<le> playhead (setPlayhead s f) \<and> playhead (setPlayhead s f) \<le> duration s
        \<and> playhead (setPlayhead s f)
            = (if f < 0 then 0 else if duration s < f then duration s else f))"
  by (auto simp add: setPlayhead_def seekTo_def)

theorem setPlayhead_clamps_witness:
  "0 \<le> duration DEFAULT_EDITOR_STATE
   \<and> playhead (setPlayhead DEFAULT_EDITOR_STATE 99999) = 900
   \<and> playhead (setPlayhead DEFAULT_EDITOR_STATE (- 50)) = 0
   \<and> playhead (setPlayhead DEFAULT_EDITOR_STATE 150) = 150
   \<and> \<not> isPlaying (setPlayhead (play DEFAULT_EDITOR_STATE) 150)"
  using setPlayhead_clamps [of DEFAULT_EDITOR_STATE 99999]
    setPlayhead_clamps [of DEFAULT_EDITOR_STATE "- 50"]
    setPlayhead_clamps [of DEFAULT_EDITOR_STATE 150]
    setPlayhead_clamps [of "play DEFAULT_EDITOR_STATE" 150]
  by (simp add: DEFAULT_EDITOR_STATE_def play_def)

text \<open>
  C7. The store's \<open>setPlayhead\<close>, the entry point of the external clock, sets the
  playhead to the frame clamped into \<open>[0, duration]\<close> and changes nothing else, so it
  never stops playback. The preview's listener passes the clock's frame on to it only
  while the store is playing and the frame is more than 2 frames away from the
  playhead; otherwise it leaves the playhead as it is.
\<close>

theorem sync_keeps_playing:
  "store_setPlayhead s f = s\<lparr> playhead := max 0 (min f (duration s)) \<rparr>
   \<and> isPlaying (store_setPlayhead s f) = isPlaying s
   \<and> (0 \<le> duration s \<longrightarrow>
        0 \<le> playhead (store_setPlayhead s f) \<and> playhead (store_setPlayhead s f) \<le> duration s)
   \<and> (isPlaying s \<and> \<bar>f - playhead s\<bar> > 2 \<longrightarrow>
        playhead (updateFromPlayer (Some f) s) = playhead (store_setPlayhead s f))
   \<and> (\<not> (isPlaying s \<and> \<bar>f - playhead s\<bar> > 2) \<longrightarrow>
        playhead (updateFromPlayer (Some f) s) = playhead s)
   \<and> playhead (updateFromPlayer None s) = playhead s"
  by (auto simp add: store_setPlayhead_def updateFromPlayer_def pause_def)

theorem sync_keeps_playing_witness:
  "isPlaying (store_setPlayhead (play DEFAULT_EDITOR_STATE) 99999)
   \<and> playhead (store_setPlayhead (play DEFAULT_EDITOR_STATE) 99999) = 900
   \<and> playhead (updateFromPlayer (Some 3) (play DEFAULT_EDITOR_STATE)) = 3
   \<and> isPlaying (updateFromPlayer (Some 3) (play DEFAULT_EDITOR_STATE))
   \<and> playhead (updateFromPlayer (Some 2) (play DEFAULT_EDITOR_STATE)) = 0
   \<and> playhead (updateFromPlayer (Some 3) DEFAULT_EDITOR_STATE) = 0"
  using sync_keeps_playing [of "play DEFAULT_EDITOR_STATE" 99999]
    sync_keeps_playing [of "play DEFAULT_EDITOR_STATE" 3]
    sync_keeps_playing [of "play DEFAULT_EDITOR_STATE" 2]
    sync_keeps_playing [of DEFAULT_EDITOR_STATE 3]
  by (simp add: DEFAULT_EDITOR_STATE_def play_def updateFromPlayer_def store_setPlayhead_def)

section \<open>The playhead invariant\<close>

lemma autoAdjust_keeps_playhead_in_range:
  "playheadInRange s \<Longrightarrow> playheadInRange (autoAdjustTimelineDuration s)"
  by (auto simp add: playheadInRange_def autoAdjustTimelineDuration_def Let_def max_def)

text \<open>
  C2, as the claim states it, fails: no operation that changes the duration touches
  the playhead. With the playhead at 400 of 500 frames and one clip ending at 100,
  \<open>fitTimelineToContent\<close> (new duration 150), \<open>setDuration\<close> to 100 and \<open>shrinkTimeline\<close>
  by 10 seconds (new duration 200) each leave the playhead beyond the new duration.
\<close>

theorem playhead_left_beyond_duration:
  "playheadInRange (stateWith [testClip ''clip1'' 0 100 0]\<lparr> duration := 500, playhead := 400 \<rparr>)
   \<and> \<not> playheadInRange (fitTimelineToContent
        (stateWith [testClip ''clip1'' 0 100 0]\<lparr> duration := 500, playhead := 400 \<rparr>))
   \<and> \<not> playheadInRange (setDuration
        (stateWith [testClip ''clip1'' 0 100 0]\<lparr> duration := 500, playhead := 400 \<rparr>) 100)
   \<and> \<not> playheadInRange (shrinkTimeline
        (stateWith [testClip ''clip1'' 0 100 0]\<lparr> duration := 500, playhead := 400 \<rparr>) 10)"
  by (simp add: playheadInRange_def fitTimelineToContent_def setDuration_def shrinkTimeline_def
      getMinimumTimelineDuration_def calculateTimelineDuration_def stateWith_def testClip_def
      DEFAULT_EDITOR_STATE_def)

text \<open>
  C2, amended. From a state with the playhead within \<open>[0, duration]\<close>, the operations
  that set the playhead (\<open>setPlayhead\<close>, \<open>seekTo\<close>, the store's \<open>setPlayhead\<close>, the
  preview's listener, \<open>stop\<close>, \<open>resetState\<close>) and those that can only grow the duration
  (\<open>autoAdjustTimelineDuration\<close> and every store action that calls it: \<open>addClip\<close>,
  \<open>addTextOverlay\<close>, \<open>trimClip\<close>, \<open>trimTextOverlay\<close>, \<open>updateClip\<close>,
  \<open>updateTextOverlay\<close>, \<open>autoAdjustTimeline\<close>) return a state with the playhead within
  \<open>[0, duration]\<close>. \<open>fitTimelineToContent\<close> (the store's action is the same function),
  \<open>setDuration\<close>, \<open>shrinkTimeline\<close> and \<open>extendTimeline\<close> leave the playhead unchanged,
  so afterwards it is within \<open>[0, duration]\<close> exactly when it does not exceed the new
  duration.
\<close>

theorem playhead_range_by_operation:
  assumes "playheadInRange s"
  shows "playheadInRange (setPlayhead s f)
    \<and> playheadInRange (seekTo s f)
    \<and> playheadInRange (store_setPlayhead s f)
    \<and> playheadInRange (updateFromPlayer cf s)
    \<and> playheadInRange (stop s)
    \<and> playheadInRange (autoAdjustTimelineDuration s)
    \<and> playheadInRange (store_trimClip s i a b)
    \<and> playhead (fitTimelineToContent s) = playhead s
    \<and> (playheadInRange (fitTimelineToContent s)
          \<longleftrightarrow> playhead s \<le> max (calculateTimelineDuration s) (5 * frameRate s))
    \<and> playhead (setDuration s d) = playhead s
    \<and> (playheadInRange (setDuration s d) \<longleftrightarrow> playhead s \<le> max 0 d)
    \<and> playhead (shrinkTimeline s n) = playhead s
    \<and> (playheadInRange (shrinkTimeline s n)
          \<longleftrightarrow> playhead s \<le> max (duration s - n * frameRate s) (calculateTimelineDuration s))
    \<and> playhead (extendTimeline s n) = playhead s
    \<and> (playheadInRange (extendTimeline s n)
          \<longleftrightarrow> playhead s \<le> duration s + n * frameRate s)
    \<and> playheadInRange (store_addClip s c newId)
    \<and> playheadInRange (store_addTextOverlay s tx newId)
    \<and> playheadInRange (store_trimTextOverlay s i a b)
    \<and> playheadInRange (updateClip s i cu)
    \<and> playheadInRange (updateTextOverlay s i tu)
    \<and> playheadInRange (autoAdjustTimeline s)
    \<and> playheadInRange (resetState s)
    \<and> store_fitTimelineToContent s = fitTimelineToContent s"
proof -
  have r: "0 \<le> playhead s" "playhead s \<le> duration s"
    using assms by (simp_all add: playheadInRange_def)
  have 1: "playheadInRange (setPlayhead s f)" "playheadInRange (seekTo s f)"
    "playheadInRange (store_setPlayhead s f)" "playheadInRange (stop s)"
    using r by (auto simp add: playheadInRange_def setPlayhead_def seekTo_def
        store_setPlayhead_def stop_def)
  have 2: "playheadInRange (updateFromPlayer cf s)"
    using r by (auto simp add: playheadInRange_def updateFromPlayer_def store_setPlayhead_def
        pause_def split: option.splits)
  have 3: "playheadInRange (autoAdjustTimelineDuration s)"
    using r by (simp add: playheadInRange_def autoAdjustTimelineDuration_def Let_def)
  have 4: "playheadInRange (store_trimClip s i a b)"
    using r by (auto simp add: playheadInRange_def store_trimClip_def trimClip_def
        autoAdjustTimelineDuration_def Let_def max_def)
  have 5: "playhead (fitTimelineToContent s) = playhead s"
    "playheadInRange (fitTimelineToContent s)
          \<longleftrightarrow> playhead s \<le> max (calculateTimelineDuration s) (5 * frameRate s)"
    using r by (simp_all add: playheadInRange_def fitTimelineToContent_def
        getMinimumTimelineDuration_def Let_def mult.commute)
  have 6: "playhead (setDuration s d) = playhead s"
    "playheadInRange (setDuration s d) \<longleftrightarrow> playhead s \<le> max 0 d"
    using r by (simp_all add: playheadInRange_def setDuration_def)
  have 7: "playhead (shrinkTimeline s n) = playhead s"
    "playheadInRange (shrinkTimeline s n)
          \<longleftrightarrow> playhead s \<le> max (duration s - n * frameRate s) (calculateTimelineDuration s)"
    using r by (simp_all add: playheadInRange_def shrinkTimeline_def
        getMinimumTimelineDuration_def Let_def)
  have 8: "playhead (extendTimeline s n) = playhead s"
    "playheadInRange (extendTimeline s n) \<longleftrightarrow> playhead s \<le> duration s + n * frameRate s"
    using r by (simp_all add: playheadInRange_def extendTimeline_def Let_def)
  have 9: "playheadInRange (store_addClip s c newId)"
    unfolding store_addClip_def Let_def
    using assms
    by (intro autoAdjust_keeps_playhead_in_range) (simp add: playheadInRange_def addClip_def)
  have 10: "playheadInRange (store_addTextOverlay s tx newId)"
    unfolding store_addTextOverlay_def Let_def
    using assms
    by (intro autoAdjust_keeps_playhead_in_range)
      (simp add: playheadInRange_def addTextOverlay_def)
  have 11: "playheadInRange (store_trimTextOverlay s i a b)"
  proof -
    have "playheadInRange (trimTextOverlay s i a b)"
      using assms by (simp add: playheadInRange_def trimTextOverlay_def)
    then show ?thesis
      by (simp add: store_trimTextOverlay_def Let_def autoAdjust_keeps_playhead_in_range)
  qed
  have 12: "playheadInRange (updateClip s i cu)"
  proof -
    let ?s1 = "s\<lparr> media := map (\<lambda>c. if itemId c = i then applyClipUpdates c cu else c)
                              (media s) \<rparr>"
    have "playheadInRange ?s1" using assms by (simp add: playheadInRange_def)
    then show ?thesis
      unfolding updateClip_def Let_def
      by (simp only: autoAdjust_keeps_playhead_in_range if_split) simp
  qed
  have 13: "playheadInRange (updateTextOverlay s i tu)"
  proof -
    let ?s1 = "s\<lparr> texts := map (\<lambda>tx. if itemId tx = i then applyTextUpdates tx tu else tx)
                              (texts s) \<rparr>"
    have "playheadInRange ?s1" using assms by (simp add: playheadInRange_def)
    then show ?thesis
      unfolding updateTextOverlay_def Let_def
      by (simp only: autoAdjust_keeps_playhead_in_range if_split) simp
  qed
  have 14: "playheadInRange (autoAdjustTimeline s)"
    using assms by (simp add: autoAdjustTimeline_def autoAdjust_keeps_playhead_in_range)
  have 15: "playheadInRange (resetState s)"
    by (simp add: resetState_def playheadInRange_def DEFAULT_EDITOR_STATE_def)
  have 16: "store_fitTimelineToContent s = fitTimelineToContent s"
    by (simp add: store_fitTimelineToContent_def)
  show ?thesis
    using 1 2 3 4 5 6 7 8 9 10 11 12 13 14 15 16 by blast
qed

theorem playhead_range_by_operation_witness:
  "playheadInRange (DEFAULT_EDITOR_STATE\<lparr> playhead := 400 \<rparr>)
   \<and> playheadInRange (setPlayhead (DEFAULT_EDITOR_STATE\<lparr> playhead := 400 \<rparr>) 1000)
   \<and> playheadInRange (autoAdjustTimelineDuration (DEFAULT_EDITOR_STATE\<lparr> playhead := 400 \<rparr>))
   \<and> playhead (fitTimelineToContent (DEFAULT_EDITOR_STATE\<lparr> playhead := 400 \<rparr>)) = 400
   \<and> \<not> playheadInRange (fitTimelineToContent (DEFAULT_EDITOR_STATE\<lparr> playhead := 400 \<rparr>))
   \<and> playheadInRange (store_addClip (DEFAULT_EDITOR_STATE\<lparr> playhead := 400 \<rparr>)
                         (testClip [] 0 1500 0) ''c9'')
   \<and> duration (store_addClip (DEFAULT_EDITOR_STATE\<lparr> playhead := 400 \<rparr>)
                   (testClip [] 0 1500 0) ''c9'') = 1560"
proof -
  let ?s = "DEFAULT_EDITOR_STATE\<lparr> playhead := 400 \<rparr>"
  have h: "playheadInRange ?s"
    by (simp add: playheadInRange_def DEFAULT_EDITOR_STATE_def)
  note t = playhead_range_by_operation [OF h, of 1000 None "''x''" 0 0 0 0
      "testClip [] 0 1500 0" "''c9''"]
  have 1: "playheadInRange (setPlayhead ?s 1000)"
    and 2: "playheadInRange (autoAdjustTimelineDuration ?s)"
    and 3: "playhead (fitTimelineToContent ?s) = playhead ?s"
    and 4: "playheadInRange (fitTimelineToContent ?s)
              \<longleftrightarrow> playhead ?s \<le> max (calculateTimelineDuration ?s) (5 * frameRate ?s)"
    and 5: "playheadInRange (store_addClip ?s (testClip [] 0 1500 0) ''c9'')"
    using t by blast+
  have 6: "playhead ?s = 400"
    and 7: "\<not> playhead ?s \<le> max (calculateTimelineDuration ?s) (5 * frameRate ?s)"
    by (simp_all add: DEFAULT_EDITOR_STATE_def calculateTimelineDuration_def)
  have 8: "duration (store_addClip ?s (testClip [] 0 1500 0) ''c9'') = 1560"
    by (simp add: store_addClip_def addClip_def autoAdjustTimelineDuration_def
        getOptimalTimelineDuration_def getMinimumTimelineDuration_def
        calculateTimelineDuration_def testClip_def DEFAULT_EDITOR_STATE_def Let_def)
  show ?thesis using h 1 2 3 4 5 6 7 8 by simp
qed

section \<open>Renumbering, removal and unmatched ids\<close>

lemma length_renumber [simp]: "length (renumber cs) = length cs"
  by (simp add: renumber_def)

lemma renumber_nth: "k < length cs \<Longrightarrow> renumber cs ! k = (cs ! k)\<lparr>order := int k\<rparr>"
  by (simp add: renumber_def nth_enumerate_eq)

lemma map_order_renumber: "map order (renumber cs) = map int [0..<length cs]"
  by (rule nth_equalityI) (simp_all add: renumber_nth)

lemma eraseOrder_renumber: "map eraseOrder (renumber cs) = map eraseOrder cs"
  by (rule nth_equalityI) (simp_all add: renumber_nth eraseOrder_def)

lemma renumber_id:
  assumes "map order cs = map int [0..<length cs]"
  shows "renumber cs = cs"
proof (rule nth_equalityI)
  show "length (renumber cs) = length cs" by simp
next
  fix k assume k: "k < length (renumber cs)"
  then have "map order cs ! k = map int [0..<length cs] ! k"
    using assms by simp
  then have "order (cs ! k) = int k" using k by simp
  then have "(cs ! k)\<lparr>order := order (cs ! k)\<rparr> = (cs ! k)\<lparr>order := int k\<rparr>" by simp
  then have "(cs ! k)\<lparr>order := int k\<rparr> = cs ! k" by simp
  then show "renumber cs ! k = cs ! k" using k by (simp add: renumber_nth)
qed

lemma map_unmatched:
  "i \<notin> itemId ` set xs \<Longrightarrow> map (\<lambda>c. if itemId c = i then g c else c) xs = xs"
  by (induction xs) auto

lemma filter_unmatched:
  "i \<notin> itemId ` set xs \<Longrightarrow> filter (\<lambda>c. itemId c \<noteq> i) xs = xs"
  by (induction xs) auto

lemma find_unmatched:
  "i \<notin> itemId ` set xs \<Longrightarrow> find (\<lambda>c. itemId c = i) xs = None"
  by (induction xs) auto

text \<open>
  The store's \<open>trimClip\<close> with an id that matches no clip still compares the requested
  frames with the duration, and extends the timeline when they lie beyond it.
\<close>

lemma store_trimClip_unmatched:
  assumes "i \<notin> itemId ` set (media s)"
  shows "store_trimClip s i a b
           = (if max a b > duration s then autoAdjustTimelineDuration s else s)"
proof -
  have "trimClip s i a b = s"
    using assms by (simp add: trimClip_def map_unmatched)
  then show ?thesis by (simp add: store_trimClip_def Let_def)
qed

text \<open>
  C5, as the claim states it, fails for \<open>removeItem\<close>: a selection may name an id that
  matches nothing (\<open>selectItem\<close> stores any id), and \<open>removeItem\<close> with that id clears
  it, returning a state that differs from its input.
\<close>

theorem removeItem_clears_dangling_selection:
  "''missing-id'' \<notin> itemId ` set (media (selectItem DEFAULT_EDITOR_STATE (Some ''missing-id'')))
   \<and> ''missing-id'' \<notin> itemId ` set (texts (selectItem DEFAULT_EDITOR_STATE (Some ''missing-id'')))
   \<and> removeItem (selectItem DEFAULT_EDITOR_STATE (Some ''missing-id'')) ''missing-id''
       \<noteq> selectItem DEFAULT_EDITOR_STATE (Some ''missing-id'')
   \<and> removeItem (selectItem DEFAULT_EDITOR_STATE (Some ''missing-id'')) ''missing-id''
       = DEFAULT_EDITOR_STATE"
  by (simp add: removeItem_def selectItem_def DEFAULT_EDITOR_STATE_def renumber_def)

text \<open>
  C5, amended. For an id that matches no clip and no overlay, \<open>trimClip\<close>,
  \<open>trimTextOverlay\<close> and \<open>setClipVolume\<close> return the input state. \<open>removeItem\<close> returns
  the input state with the clips renumbered and with the selection cleared when the
  selection is that id; where the clips' orders are \<open>0..N-1\<close> already the renumbering
  changes nothing, and where moreover the selection is not that id, \<open>removeItem\<close>
  returns the input state.
\<close>

theorem unmatched_id_noop:
  assumes "i \<notin> itemId ` set (media s)" and "i \<notin> itemId ` set (texts s)"
  shows "trimClip s i a b = s
    \<and> trimTextOverlay s i a b = s
    \<and> setClipVolume s i v = s
    \<and> removeItem s i
        = s\<lparr> media := renumber (media s),
              selectedId := (if selectedId s = Some i then None else selectedId s) \<rparr>
    \<and> (map order (media s) = map int [0..<length (media s)] \<longrightarrow>
         removeItem s i
           = s\<lparr> selectedId := (if selectedId s = Some i then None else selectedId s) \<rparr>)
    \<and> (map order (media s) = map int [0..<length (media s)] \<and> selectedId s \<noteq> Some i \<longrightarrow>
         removeItem s i = s)"
proof -
  have 1: "trimClip s i a b = s"
    using assms(1) by (simp add: trimClip_def map_unmatched)
  have 2: "trimTextOverlay s i a b = s"
    using assms(2) by (simp add: trimTextOverlay_def map_unmatched)
  have 3: "setClipVolume s i v = s"
    using assms(1) by (simp add: setClipVolume_def find_unmatched)
  have 4: "removeItem s i
        = s\<lparr> media := renumber (media s),
              selectedId := (if selectedId s = Some i then None else selectedId s) \<rparr>"
    using assms by (simp add: removeItem_def filter_unmatched)
  have 5: "removeItem s i
           = s\<lparr> selectedId := (if selectedId s = Some i then None else selectedId s) \<rparr>"
    if "map order (media s) = map int [0..<length (media s)]"
    using that by (simp add: 4 renumber_id)
  have 6: "removeItem s i = s"
    if "map order (media s) = map int [0..<length (media s)] \<and> selectedId s \<noteq> Some i"
    using that by (simp add: 5)
  show ?thesis using 1 2 3 4 5 6 by blast
qed

theorem unmatched_id_noop_witness:
  "''nope'' \<notin> itemId ` set (media (stateWith [testClip ''clip1'' 0 100 0]))
   \<and> ''nope'' \<notin> itemId ` set (texts (stateWith [testClip ''clip1'' 0 100 0]))
   \<and> map order (media (stateWith [testClip ''clip1'' 0 100 0]))
        = map int [0..<length (media (stateWith [testClip ''clip1'' 0 100 0]))]
   \<and> selectedId (stateWith [testClip ''clip1'' 0 100 0]) \<noteq> Some ''nope''
   \<and> trimClip (stateWith [testClip ''clip1'' 0 100 0]) ''nope'' 10 90
        = stateWith [testClip ''clip1'' 0 100 0]
   \<and> removeItem (stateWith [testClip ''clip1'' 0 100 0]) ''nope''
        = stateWith [testClip ''clip1'' 0 100 0]"
proof -
  let ?s = "stateWith [testClip ''clip1'' 0 100 0]"
  have h1: "''nope'' \<notin> itemId ` set (media ?s)"
    and h2: "''nope'' \<notin> itemId ` set (texts ?s)"
    and h3: "map order (media ?s) = map int [0..<length (media ?s)]"
    and h4: "selectedId ?s \<noteq> Some ''nope''"
    by (simp_all add: stateWith_def testClip_def DEFAULT_EDITOR_STATE_def)
  show ?thesis
    using h1 h2 h3 h4 unmatched_id_noop [OF h1 h2, of 10 90 0] by blast
qed

section \<open>Reordering\<close>

lemma length_reindex [simp]: "length (reindex slots) = length slots"
  by (simp add: reindex_def)

lemma reindex_nth:
  "k < length slots \<Longrightarrow>
     reindex slots ! k = (case slots ! k of Some c \<Rightarrow> Entry (c\<lparr>order := int k\<rparr>)
                                          | None \<Rightarrow> OrderOnly (int k))"
  by (simp add: reindex_def nth_enumerate_eq)

lemma reindex_map_Some: "reindex (map Some cs) = map Entry (renumber cs)"
  by (rule nth_equalityI) (simp_all add: reindex_nth renumber_nth)

lemma map_entryOrder_reindex: "map entryOrder (reindex slots) = map int [0..<length slots]"
  by (rule nth_equalityI) (simp_all add: reindex_nth split: option.split)

lemma erased_reindex:
  "map (map_option eraseOrder \<circ> entryClip) (reindex slots) = map (map_option eraseOrder) slots"
  by (rule nth_equalityI) (simp_all add: reindex_nth eraseOrder_def split: option.split)

lemma actualStart_le: "actualStart x n \<le> n"
  by (auto simp add: actualStart_def max_def)

lemma actualStart_in_range: "0 \<le> x \<Longrightarrow> x < int n \<Longrightarrow> actualStart x n = nat x"
  by (simp add: actualStart_def)

lemma actualStart_less: "0 < n \<Longrightarrow> x < int n \<Longrightarrow> actualStart x n < n"
  by (auto simp add: actualStart_def)

lemma map_insert_at:
  "map g (take t r @ [x] @ drop t r) = take t (map g r) @ [g x] @ drop t (map g r)"
  by (simp add: take_map drop_map)

lemma insert_at_length:
  assumes "length A = t"
  shows "take t (A @ x # B) = A" and "drop (Suc t) (A @ x # B) = B" and "(A @ x # B) ! t = x"
  using assms by (simp_all add: nth_append)

text \<open>The first splice removes a clip exactly when its start falls inside the array.\<close>

lemma reorderClips_removes:
  assumes k: "actualStart f (length (media s)) < length (media s)"
  shows "media (reorderClips s f t)
           = map Entry (renumber (moveClip (media s) (actualStart f (length (media s)))
                                     (actualStart t (length (media s) - 1))))"
proof -
  let ?cs = "media s"
  let ?k = "actualStart f (length ?cs)"
  let ?ms = "map Some ?cs"
  let ?rest = "take ?k ?cs @ drop (Suc ?k) ?cs"
  have d: "min 1 (length ?cs - ?k) = 1" using k by simp
  have removed: "take 1 (drop ?k ?ms) = [Some (?cs ! ?k)]"
    using k by (simp add: take_Suc_conv_app_nth drop_map [symmetric] hd_drop_conv_nth take_Suc)
  have rest: "take ?k ?ms @ drop (?k + 1) ?ms = map Some ?rest"
    by (simp add: take_map drop_map)
  have len: "length ?rest = length ?cs - 1" using k by simp
  have "media (reorderClips s f t)
          = reindex (take (actualStart t (length ?cs - 1)) (map Some ?rest)
                     @ [Some (?cs ! ?k)]
                     @ drop (actualStart t (length ?cs - 1)) (map Some ?rest))"
    unfolding reorderClips_def splice_def Let_def
    using d removed rest len by (simp del: take_append drop_append)
  also have "\<dots> = reindex (map Some (moveClip ?cs ?k (actualStart t (length ?cs - 1))))"
    unfolding moveClip_def Let_def by (simp only: map_insert_at)
  finally show ?thesis by (simp only: reindex_map_Some)
qed

lemma reorderClips_inserts_undefined:
  assumes k: "actualStart f (length (media s)) = length (media s)"
  shows "media (reorderClips s f t)
           = reindex (take (actualStart t (length (media s))) (map Some (media s))
                      @ [None]
                      @ drop (actualStart t (length (media s))) (map Some (media s)))"
  unfolding reorderClips_def splice_def Let_def using k by simp

lemma mset_moveClip:
  assumes "k < length cs"
  shows "mset (moveClip cs k t) = mset cs"
proof -
  let ?rest = "take k cs @ drop (Suc k) cs"
  have "mset (moveClip cs k t) = mset (take t ?rest @ drop t ?rest) + {#cs ! k#}"
    unfolding moveClip_def Let_def by (simp del: append_take_drop_id take_append drop_append)
  also have "\<dots> = mset ?rest + {#cs ! k#}"
    by (simp only: append_take_drop_id)
  also have "\<dots> = mset (take k cs @ cs ! k # drop (Suc k) cs)"
    by simp
  also have "\<dots> = mset cs"
    using assms by (simp only: id_take_nth_drop [symmetric])
  finally show ?thesis .
qed

lemma moveClip_untouched:
  assumes "k < length cs" and "t < length cs"
  shows "take t (moveClip cs k t) @ drop (Suc t) (moveClip cs k t)
           = take k cs @ drop (Suc k) cs"
    and "moveClip cs k t ! t = cs ! k"
    and "length (moveClip cs k t) = length cs"
proof -
  let ?rest = "take k cs @ drop (Suc k) cs"
  have len: "length ?rest = length cs - 1" using assms by simp
  then have t: "t \<le> length ?rest" using assms by simp
  then have lt: "length (take t ?rest) = t" by (simp only: length_take min_absorb2)
  have m: "moveClip cs k t = take t ?rest @ cs ! k # drop t ?rest"
    by (simp add: moveClip_def Let_def del: take_append drop_append)
  show "moveClip cs k t ! t = cs ! k"
    unfolding m by (rule insert_at_length(3) [OF lt])
  show "take t (moveClip cs k t) @ drop (Suc t) (moveClip cs k t) = ?rest"
    unfolding m by (simp only: insert_at_length(1,2) [OF lt] append_take_drop_id)
  have "length (moveClip cs k t) = Suc (length ?rest)"
    unfolding m
    by (simp only: length_append list.size append_take_drop_id length_take length_drop)
  then show "length (moveClip cs k t) = length cs"
    using len assms by simp
qed

text \<open>
  C8. After \<open>removeItem\<close>, for any id, the clips' \<open>order\<close> fields are \<open>0..N-1\<close> in list
  order, the clips are those of the input whose id differs, in their order, and the
  selection is cleared when it was the id. After \<open>reorderClips\<close> with both indices
  within \<open>0..N-1\<close> the array holds the clips only, with the \<open>order\<close> fields \<open>0..N-1\<close> in
  list order: the clip of \<open>fromIndex\<close> stands at \<open>toIndex\<close>, and the other clips keep
  their relative order.
\<close>

theorem orders_contiguous:
  "map order (media (removeItem s i)) = map int [0..<length (media (removeItem s i))]
   \<and> map eraseOrder (media (removeItem s i))
        = map eraseOrder (filter (\<lambda>c. itemId c \<noteq> i) (media s))
   \<and> selectedId (removeItem s i) = (if selectedId s = Some i then None else selectedId s)
   \<and> (0 \<le> f \<and> f < int (length (media s)) \<and> 0 \<le> t \<and> t < int (length (media s)) \<longrightarrow>
        media (reorderClips s f t)
          = map Entry (renumber (moveClip (media s) (nat f) (nat t)))
        \<and> map entryOrder (media (reorderClips s f t)) = map int [0..<length (media s)]
        \<and> moveClip (media s) (nat f) (nat t) ! nat t = media s ! nat f
        \<and> take (nat t) (moveClip (media s) (nat f) (nat t))
            @ drop (Suc (nat t)) (moveClip (media s) (nat f) (nat t))
          = take (nat f) (media s) @ drop (Suc (nat f)) (media s))"
proof (intro conjI impI)
  show "map order (media (removeItem s i)) = map int [0..<length (media (removeItem s i))]"
    by (simp add: removeItem_def map_order_renumber)
  show "map eraseOrder (media (removeItem s i))
        = map eraseOrder (filter (\<lambda>c. itemId c \<noteq> i) (media s))"
    by (simp add: removeItem_def eraseOrder_renumber)
  show "selectedId (removeItem s i) = (if selectedId s = Some i then None else selectedId s)"
    by (simp add: removeItem_def)
next
  assume a: "0 \<le> f \<and> f < int (length (media s)) \<and> 0 \<le> t \<and> t < int (length (media s))"
  let ?cs = "media s"
  have kf: "actualStart f (length ?cs) = nat f"
    using a by (simp add: actualStart_in_range)
  have kt: "actualStart t (length ?cs - 1) = nat t"
    using a by (auto simp add: actualStart_def)
  have f: "nat f < length ?cs" and t: "nat t < length ?cs" using a by auto
  have "actualStart f (length ?cs) < length ?cs" using kf f by simp
  from reorderClips_removes [OF this]
  show m: "media (reorderClips s f t) = map Entry (renumber (moveClip ?cs (nat f) (nat t)))"
    by (simp only: kf kt)
  have "map entryOrder (media (reorderClips s f t))
          = map order (renumber (moveClip ?cs (nat f) (nat t)))"
    unfolding m by (simp add: comp_def)
  then show "map entryOrder (media (reorderClips s f t)) = map int [0..<length ?cs]"
    by (simp only: map_order_renumber moveClip_untouched(3) [OF f t])
  show "moveClip ?cs (nat f) (nat t) ! nat t = ?cs ! nat f"
    by (rule moveClip_untouched(2) [OF f t])
  show "take (nat t) (moveClip ?cs (nat f) (nat t))
            @ drop (Suc (nat t)) (moveClip ?cs (nat f) (nat t))
          = take (nat f) ?cs @ drop (Suc (nat f)) ?cs"
    by (rule moveClip_untouched(1) [OF f t])
qed

theorem orders_contiguous_witness:
  "media (reorderClips (stateWith [testClip ''clip1'' 0 50 0, testClip ''clip2'' 50 100 1,
                           testClip ''clip3'' 100 150 2]) 0 2)
     = [Entry (testClip ''clip2'' 50 100 0), Entry (testClip ''clip3'' 100 150 1),
        Entry (testClip ''clip1'' 0 50 2)]
   \<and> media (removeItem (stateWith [testClip ''clip1'' 0 50 0, testClip ''clip2'' 50 100 1,
                           testClip ''clip3'' 100 150 2]) ''clip1'')
     = [testClip ''clip2'' 50 100 0, testClip ''clip3'' 100 150 1]"
proof -
  let ?s = "stateWith [testClip ''clip1'' 0 50 0, testClip ''clip2'' 50 100 1,
                           testClip ''clip3'' 100 150 2]"
  have h: "0 \<le> (0::int) \<and> 0 < int (length (media ?s)) \<and> 0 \<le> (2::int)
      \<and> 2 < int (length (media ?s))"
    by (simp add: stateWith_def)
  have r: "renumber (moveClip (media ?s) (nat 0) (nat 2))
     = [testClip ''clip2'' 50 100 0, testClip ''clip3'' 100 150 1, testClip ''clip1'' 0 50 2]"
    by (simp add: stateWith_def moveClip_def renumber_def testClip_def enumerate_eq_zip
        upt_conv_Cons)
  have "media (reorderClips ?s 0 2)
      = map Entry (renumber (moveClip (media ?s) (nat 0) (nat 2)))"
    using orders_contiguous [of ?s "''clip1''" 0 2] h by blast
  then have 1: "media (reorderClips ?s 0 2)
     = [Entry (testClip ''clip2'' 50 100 0), Entry (testClip ''clip3'' 100 150 1),
        Entry (testClip ''clip1'' 0 50 2)]"
    by (simp only: r list.map)
  have 2: "media (removeItem ?s ''clip1'')
     = [testClip ''clip2'' 50 100 0, testClip ''clip3'' 100 150 1]"
    by (simp add: removeItem_def stateWith_def renumber_def testClip_def enumerate_eq_zip
        upt_conv_Cons DEFAULT_EDITOR_STATE_def)
  show ?thesis using 1 2 by blast
qed

text \<open>
  C10, as the claim states it, fails for a negative \<open>fromIndex\<close>: \<open>splice\<close> counts a
  negative start from the end of the array, so \<open>fromIndex = -1\<close>, outside \<open>0..N-1\<close>,
  removes the last clip and reinserts it; the result has the two clips of the input
  and no malformed element.
\<close>

theorem negative_fromIndex_moves_a_clip:
  "\<not> (0 \<le> (- 1 :: int))
   \<and> media (reorderClips (stateWith [testClip ''clip1'' 0 50 0, testClip ''clip2'' 50 100 1])
              (- 1) 0)
       = [Entry (testClip ''clip2'' 50 100 0), Entry (testClip ''clip1'' 0 50 1)]"
  by (simp add: reorderClips_def splice_def actualStart_def reindex_def stateWith_def
      testClip_def DEFAULT_EDITOR_STATE_def enumerate_eq_zip upt_conv_Cons)

text \<open>
  C10, amended. When there are clips and \<open>fromIndex < N\<close> (negative or not),
  \<open>reorderClips\<close> returns the renumbering of a permutation of the input clips, of the
  same length; for \<open>0 \<le> fromIndex\<close> the clip moved is the one at \<open>fromIndex\<close>. When
  there is no clip or \<open>N \<le> fromIndex\<close>, the first splice removes nothing and the
  second inserts \<open>undefined\<close>: the result has \<open>N + 1\<close> elements, the one at the
  insertion point carries an \<open>order\<close> field only, and the others are the input clips in
  their order.
\<close>

theorem reorderClips_membership:
  "(media s \<noteq> [] \<and> f < int (length (media s)) \<longrightarrow>
      media (reorderClips s f t)
        = map Entry (renumber (moveClip (media s) (actualStart f (length (media s)))
                                 (actualStart t (length (media s) - 1))))
      \<and> mset (moveClip (media s) (actualStart f (length (media s)))
                 (actualStart t (length (media s) - 1)))
          = mset (media s)
      \<and> length (media (reorderClips s f t)) = length (media s)
      \<and> (0 \<le> f \<longrightarrow> actualStart f (length (media s)) = nat f))
   \<and> (media s = [] \<or> int (length (media s)) \<le> f \<longrightarrow>
      length (media (reorderClips s f t)) = length (media s) + 1
      \<and> media (reorderClips s f t) ! actualStart t (length (media s))
          = OrderOnly (int (actualStart t (length (media s))))
      \<and> map (map_option eraseOrder \<circ> entryClip) (media (reorderClips s f t))
          = take (actualStart t (length (media s))) (map (Some \<circ> eraseOrder) (media s))
            @ [None]
            @ drop (actualStart t (length (media s))) (map (Some \<circ> eraseOrder) (media s)))"
proof (intro conjI impI)
  assume a: "media s \<noteq> [] \<and> f < int (length (media s))"
  let ?cs = "media s"
  let ?k = "actualStart f (length ?cs)"
  let ?j = "actualStart t (length ?cs - 1)"
  have k: "?k < length ?cs" using a by (intro actualStart_less) simp_all
  show m: "media (reorderClips s f t) = map Entry (renumber (moveClip ?cs ?k ?j))"
    by (rule reorderClips_removes [OF k])
  show ms: "mset (moveClip ?cs ?k ?j) = mset ?cs"
    by (rule mset_moveClip [OF k])
  have "length (moveClip ?cs ?k ?j) = length ?cs"
    using ms by (metis size_mset)
  then show "length (media (reorderClips s f t)) = length ?cs"
    unfolding m by simp
  assume "0 \<le> f"
  then show "?k = nat f" using a by (simp add: actualStart_in_range)
next
  assume a: "media s = [] \<or> int (length (media s)) \<le> f"
  let ?cs = "media s"
  let ?j = "actualStart t (length ?cs)"
  have k: "actualStart f (length ?cs) = length ?cs"
    using a by (auto simp add: actualStart_def)
  have j: "?j \<le> length ?cs" by (rule actualStart_le)
  then have lt: "length (take ?j (map Some ?cs)) = ?j" by simp
  note m = reorderClips_inserts_undefined [OF k, of t]
  show "length (media (reorderClips s f t)) = length ?cs + 1"
    unfolding m using j by simp
  have "(take ?j (map Some ?cs) @ None # drop ?j (map Some ?cs)) ! ?j = None"
    by (rule insert_at_length(3) [OF lt])
  then show "media (reorderClips s f t) ! ?j = OrderOnly (int ?j)"
    unfolding m using j by (simp add: reindex_nth del: nth_append_length)
  show "map (map_option eraseOrder \<circ> entryClip) (media (reorderClips s f t))
          = take ?j (map (Some \<circ> eraseOrder) ?cs) @ [None]
            @ drop ?j (map (Some \<circ> eraseOrder) ?cs)"
    unfolding m erased_reindex by (simp add: take_map drop_map)
qed

theorem reorderClips_membership_witness:
  "media (reorderClips (stateWith [testClip ''clip1'' 0 50 0, testClip ''clip2'' 50 100 1]) 2 0)
      ! 0 = OrderOnly 0
   \<and> length (media (reorderClips
        (stateWith [testClip ''clip1'' 0 50 0, testClip ''clip2'' 50 100 1]) 2 0)) = 3
   \<and> length (media (reorderClips
        (stateWith [testClip ''clip1'' 0 50 0, testClip ''clip2'' 50 100 1]) 1 0)) = 2
   \<and> length (media (reorderClips
        (stateWith [testClip ''clip1'' 0 50 0, testClip ''clip2'' 50 100 1]) (- 1) 0)) = 2
   \<and> actualStart 1
        (length (media (stateWith [testClip ''clip1'' 0 50 0, testClip ''clip2'' 50 100 1])))
       = 1"
proof -
  let ?s = "stateWith [testClip ''clip1'' 0 50 0, testClip ''clip2'' 50 100 1]"
  have l: "length (media ?s) = 2" by (simp add: stateWith_def)
  have h1: "media ?s \<noteq> [] \<and> 1 < int (length (media ?s))"
    and h2: "media ?s \<noteq> [] \<and> - 1 < int (length (media ?s))"
    and h3: "media ?s = [] \<or> int (length (media ?s)) \<le> 2"
    by (simp_all add: stateWith_def)
  have a: "length (media (reorderClips ?s 1 0)) = length (media ?s)"
    using reorderClips_membership [of ?s 1 0] h1 by blast
  have b: "length (media (reorderClips ?s (- 1) 0)) = length (media ?s)"
    using reorderClips_membership [of ?s "- 1" 0] h2 by blast
  have n: "actualStart 1 (length (media ?s)) = nat 1"
    using reorderClips_membership [of ?s 1 0] h1 by simp
  have c: "length (media (reorderClips ?s 2 0)) = length (media ?s) + 1"
    and d: "media (reorderClips ?s 2 0) ! actualStart 0 (length (media ?s))
              = OrderOnly (int (actualStart 0 (length (media ?s))))"
    using reorderClips_membership [of ?s 2 0] h3 by blast+
  show ?thesis
    using a b c d n by (simp add: l actualStart_def)
qed

section \<open>Validation\<close>

lemma overlapErrors_adjacent:
  "overlapErrors cs
     = [overlapMessage previous next.
          (previous, next) \<leftarrow> adjacentPairs cs, endFrame previous > startFrame next]"
  by (induction cs rule: overlapErrors.induct)
    (simp_all add: adjacentPairs_def overlapMessage_def)

lemma rangeErrors_itemDiagnostics: "rangeErrors = itemDiagnostics"
  by (rule ext) (simp add: rangeErrors_def itemDiagnostics_def invalidRangeMessage_def
      negativeStartMessage_def)

text \<open>
  C9. \<open>validateTimelineState\<close> returns the diagnostics of the specification and no
  others, in this order: the overlap diagnostics of the adjacent pairs of the clips
  sorted by \<open>startFrame\<close> (the sorted list is ordered and a permutation of the clips),
  then the range diagnostics of the clips, then those of the overlays. Overlays yield
  no overlap diagnostic. Two clips with the ranges \<open>[0, 60)\<close> and \<open>[50, 100)\<close>, in
  either list order, yield exactly one diagnostic, the overlap naming both ids.
\<close>

theorem validate_exact:
  "validateTimelineState s = validateSpec s
   \<and> sorted (map startFrame (sort_key startFrame (media s)))
   \<and> mset (sort_key startFrame (media s)) = mset (media s)
   \<and> validateTimelineState (s\<lparr>media := []\<rparr>) = concat (map itemDiagnostics (texts s))
   \<and> validateTimelineState (stateWith [testClip a 0 60 0, testClip b 50 100 1])
       = [''Clip '' @ a @ '' overlaps with clip '' @ b]
   \<and> validateTimelineState (stateWith [testClip b 50 100 0, testClip a 0 60 1])
       = [''Clip '' @ a @ '' overlaps with clip '' @ b]"
proof (intro conjI)
  show e: "validateTimelineState s = validateSpec s" for s
    by (simp add: validateTimelineState_def validateSpec_def overlapErrors_adjacent
        rangeErrors_itemDiagnostics)
  show "sorted (map startFrame (sort_key startFrame (media s)))"
    by (rule sorted_sort_key)
  show "mset (sort_key startFrame (media s)) = mset (media s)"
    by (rule mset_sort)
  show "validateTimelineState (s\<lparr>media := []\<rparr>) = concat (map itemDiagnostics (texts s))"
    by (simp add: e validateSpec_def adjacentPairs_def)
  show "validateTimelineState (stateWith [testClip a 0 60 0, testClip b 50 100 1])
       = [''Clip '' @ a @ '' overlaps with clip '' @ b]"
    by (simp add: validateTimelineState_def rangeErrors_def stateWith_def testClip_def
        DEFAULT_EDITOR_STATE_def)
  show "validateTimelineState (stateWith [testClip b 50 100 0, testClip a 0 60 1])
       = [''Clip '' @ a @ '' overlaps with clip '' @ b]"
    by (simp add: validateTimelineState_def rangeErrors_def stateWith_def testClip_def
        DEFAULT_EDITOR_STATE_def)
qed

end
